theory Spec2Isabelle
  imports Complex_Main "HOL-Library.Log_Nat"
begin

section \<open>JavaScript values used by the front-end\<close>

text \<open>
  The pages are TypeScript/React components.  A JavaScript number is a double: it is
  modelled by its exact value where it is finite (\<open>Fin\<close>), and by \<open>NaN\<close>, \<open>PosInf\<close> and
  \<open>NegInf\<close> otherwise; the two zeros are one value.  An arithmetic operation computes the
  exact result and rounds it to the nearest double (\<open>round_double\<close>).
\<close>

datatype jsnum = Fin rat | NaN | PosInf | NegInf

text \<open>The comparison \<open>a < b\<close> of JavaScript: false as soon as one side is \<open>NaN\<close>.\<close>

fun js_less :: "jsnum \<Rightarrow> jsnum \<Rightarrow> bool" where
  "js_less NaN _ = False"
| "js_less _ NaN = False"
| "js_less (Fin a) (Fin b) = (a < b)"
| "js_less (Fin a) PosInf = True"
| "js_less (Fin a) NegInf = False"
| "js_less PosInf _ = False"
| "js_less NegInf (Fin b) = True"
| "js_less NegInf PosInf = True"
| "js_less NegInf NegInf = False"

text \<open>The comparison \<open>a >= b\<close>.\<close>

fun js_ge :: "jsnum \<Rightarrow> jsnum \<Rightarrow> bool" where
  "js_ge NaN _ = False"
| "js_ge _ NaN = False"
| "js_ge (Fin a) (Fin b) = (b \<le> a)"
| "js_ge (Fin a) PosInf = False"
| "js_ge (Fin a) NegInf = True"
| "js_ge PosInf _ = True"
| "js_ge NegInf (Fin b) = False"
| "js_ge NegInf PosInf = False"
| "js_ge NegInf NegInf = True"

subsection \<open>Rounding to a double\<close>

text \<open>The power \<open>2^k\<close> for an integer exponent.\<close>

definition pow2 :: "int \<Rightarrow> rat" where
  "pow2 k = (if 0 \<le> k then 2 ^ nat k else 1 / 2 ^ nat (- k))"

text \<open>The nearest integer, a tie going to the even one.\<close>

definition round_half_even :: "rat \<Rightarrow> int" where
  "round_half_even y =
     (let n = \<lfloor>y\<rfloor>; f = y - of_int n
      in if f < 1 / 2 then n
         else if 1 / 2 < f then n + 1
         else if even n then n else n + 1)"

text \<open>The exponent \<open>e\<close> of a positive number \<open>a\<close>: \<open>2^e \<le> a < 2^(e+1)\<close>.\<close>

definition binade :: "rat \<Rightarrow> int" where
  "binade a = (if 1 \<le> a then bitlen \<lfloor>a\<rfloor> - 1 else - bitlen (\<lceil>1 / a\<rceil> - 1))"

text \<open>
  Round to nearest, ties to even, with 53 significant bits: the spacing of the doubles
  around \<open>a\<close> is \<open>2^(e - 52)\<close>, from the exponent \<open>-1022\<close> down it stays \<open>2^(-1074)\<close>, and a
  result of \<open>2^1024\<close> or more is an infinity.
\<close>

definition round_double :: "rat \<Rightarrow> jsnum" where
  "round_double x =
     (if x = 0 then Fin 0
      else let a = \<bar>x\<bar>;
               e = binade a;
               ulp = pow2 (max e (- 1022) - 52);
               r = of_int (round_half_even (a / ulp)) * ulp
           in if e < 1023 then Fin (if 0 < x then r else - r)
              else if 2 ^ 1024 \<le> r then (if 0 < x then PosInf else NegInf)
              else Fin (if 0 < x then r else - r))"

text \<open>The value of a decimal literal such as \<open>0.8\<close>.\<close>

definition literal :: "rat \<Rightarrow> jsnum" where
  "literal r = round_double r"

subsection \<open>Arithmetic\<close>

text \<open>\<open>a - b\<close>.\<close>

fun js_minus :: "jsnum \<Rightarrow> jsnum \<Rightarrow> jsnum" where
  "js_minus NaN _ = NaN"
| "js_minus _ NaN = NaN"
| "js_minus (Fin a) (Fin b) = round_double (a - b)"
| "js_minus (Fin a) PosInf = NegInf"
| "js_minus (Fin a) NegInf = PosInf"
| "js_minus PosInf (Fin b) = PosInf"
| "js_minus PosInf PosInf = NaN"
| "js_minus PosInf NegInf = PosInf"
| "js_minus NegInf (Fin b) = NegInf"
| "js_minus NegInf PosInf = NegInf"
| "js_minus NegInf NegInf = NaN"

text \<open>\<open>a * b\<close>.\<close>

fun js_times :: "jsnum \<Rightarrow> jsnum \<Rightarrow> jsnum" where
  "js_times NaN _ = NaN"
| "js_times _ NaN = NaN"
| "js_times (Fin a) (Fin b) = round_double (a * b)"
| "js_times (Fin a) PosInf = (if a = 0 then NaN else if 0 < a then PosInf else NegInf)"
| "js_times (Fin a) NegInf = (if a = 0 then NaN else if 0 < a then NegInf else PosInf)"
| "js_times PosInf (Fin b) = (if b = 0 then NaN else if 0 < b then PosInf else NegInf)"
| "js_times PosInf PosInf = PosInf"
| "js_times PosInf NegInf = NegInf"
| "js_times NegInf (Fin b) = (if b = 0 then NaN else if 0 < b then NegInf else PosInf)"
| "js_times NegInf PosInf = NegInf"
| "js_times NegInf NegInf = PosInf"

text \<open>\<open>a / c\<close> for a finite constant \<open>c\<close> other than zero.\<close>

definition js_div_by :: "jsnum \<Rightarrow> rat \<Rightarrow> jsnum" where
  "js_div_by x c =
     (case x of
        Fin a \<Rightarrow> round_double (a / c)
      | NaN \<Rightarrow> NaN
      | PosInf \<Rightarrow> (if 0 < c then PosInf else NegInf)
      | NegInf \<Rightarrow> (if 0 < c then NegInf else PosInf))"

text \<open>
  A number that is whole where finite: what \<open>Math.floor\<close> and \<open>Math.round\<close> return.
  \<open>Math.round\<close> takes the nearest integer, a tie going up.
\<close>

datatype integral = Whole int | NotANumber | PlusInfinity | MinusInfinity

definition Math_floor :: "jsnum \<Rightarrow> integral" where
  "Math_floor x =
     (case x of Fin a \<Rightarrow> Whole \<lfloor>a\<rfloor> | NaN \<Rightarrow> NotANumber
      | PosInf \<Rightarrow> PlusInfinity | NegInf \<Rightarrow> MinusInfinity)"

definition Math_round :: "jsnum \<Rightarrow> integral" where
  "Math_round x =
     (case x of Fin a \<Rightarrow> Whole \<lfloor>a + 1 / 2\<rfloor> | NaN \<Rightarrow> NotANumber
      | PosInf \<Rightarrow> PlusInfinity | NegInf \<Rightarrow> MinusInfinity)"

text \<open>\<open>Math.ceil\<close> of the quotient of two integers, the divisor positive.\<close>

definition Math_ceil_div :: "int \<Rightarrow> int \<Rightarrow> int" where
  "Math_ceil_div a b = - ((- a) div b)"

datatype jsval =
    JUndefined
  | JNull
  | JBool bool
  | JNum jsnum
  | JStr string
  | JOther

text \<open>An object is a finite map from property names to values; a missing property reads
  as \<open>undefined\<close>.\<close>

type_synonym jsobject = "string \<rightharpoonup> jsval"

definition get_prop :: "jsobject \<Rightarrow> string \<Rightarrow> jsval" where
  "get_prop obj k = (case obj k of None \<Rightarrow> JUndefined | Some v \<Rightarrow> v)"

subsection \<open>Numbers in template literals\<close>

definition digit_char :: "nat \<Rightarrow> char" where
  "digit_char d = ''0123456789'' ! d"

fun decimal_digits :: "nat \<Rightarrow> string" where
  "decimal_digits n =
     (if 10 \<le> n then decimal_digits (n div 10) @ [digit_char (n mod 10)] else [digit_char n])"

text \<open>
  From \<open>10^21\<close> on JavaScript prints a number in exponent notation, as in \<open>1e+21\<close>.  That
  notation is not computed here: it is a parameter, the function \<open>exponential\<close> of the
  runtime from a whole number of that size to its text.
\<close>

type_synonym exponential = "int \<Rightarrow> string"

text \<open>The template literal of a whole number \<open>i\<close>: below \<open>10^21\<close> its decimal digits, with a
  minus sign when negative.\<close>

definition Number_toString :: "exponential \<Rightarrow> int \<Rightarrow> string" where
  "Number_toString exponential i =
     (if 10 ^ 21 \<le> \<bar>i\<bar> then exponential i
      else if 0 \<le> i then decimal_digits (nat i)
      else CHR ''-'' # decimal_digits (nat (- i)))"

definition integral_toString :: "exponential \<Rightarrow> integral \<Rightarrow> string" where
  "integral_toString exponential w =
     (case w of
        Whole i \<Rightarrow> Number_toString exponential i
      | NotANumber \<Rightarrow> ''NaN''
      | PlusInfinity \<Rightarrow> ''Infinity''
      | MinusInfinity \<Rightarrow> ''-Infinity'')"

text \<open>An exponent notation that knows the number \<open>10^21\<close> only.\<close>

definition sample_exponential :: exponential where
  "sample_exponential i = (if i = 10 ^ 21 then ''1e+21'' else [])"

section \<open>formatTime: minutes as hours and minutes\<close>

text \<open>The argument type \<open>number | null | undefined\<close>, the number a whole count of minutes.\<close>

datatype minutes = Undefined | Null | Number int

text \<open>\<open>!minutes\<close>: \<open>undefined\<close>, \<open>null\<close> and \<open>0\<close> are falsy.\<close>

fun falsy :: "minutes \<Rightarrow> bool" where
  "falsy Undefined = True"
| "falsy Null = True"
| "falsy (Number m) = (m = 0)"

text \<open>
  In the three copies below \<open>minutes / 60\<close> is the division of doubles, and the remainder
  \<open>%\<close>, which is exact on doubles, is only reached with \<open>60 \<le> m\<close>, where it agrees with
  \<open>mod\<close>.
\<close>

text \<open>routes/\_layout/recipes.tsx, in \<open>RecipesTable\<close>.\<close>

definition formatTime_recipes :: "exponential \<Rightarrow> minutes \<Rightarrow> string" where
  "formatTime_recipes exponential minutes =
     (if falsy minutes then ''N/A''
      else case minutes of Number m \<Rightarrow>
        (if m < 60 then Number_toString exponential m @ ''m''
         else let hours = Math_floor (js_div_by (Fin (of_int m)) 60); remainingMinutes = m mod 60
              in if 0 < remainingMinutes
                 then integral_toString exponential hours @ ''h ''
                        @ Number_toString exponential remainingMinutes @ ''m''
                 else integral_toString exponential hours @ ''h'')
      | _ \<Rightarrow> ''N/A'')"

text \<open>routes/\_layout/recipes.\$id.tsx, in \<open>RecipeDetail\<close>; \<open>null\<close> is \<open>None\<close>.\<close>

definition formatTime_detail :: "exponential \<Rightarrow> minutes \<Rightarrow> string option" where
  "formatTime_detail exponential minutes =
     (if falsy minutes then None
      else case minutes of Number m \<Rightarrow>
        (if m < 60 then Some (Number_toString exponential m @ ''m'')
         else let hours = Math_floor (js_div_by (Fin (of_int m)) 60); remainingMinutes = m mod 60
              in if 0 < remainingMinutes
                 then Some (integral_toString exponential hours @ ''h ''
                        @ Number_toString exponential remainingMinutes @ ''m'')
                 else Some (integral_toString exponential hours @ ''h''))
      | _ \<Rightarrow> None)"

text \<open>The suggestions route, in \<open>RecipeSuggestionCard\<close>.\<close>

definition formatTime_suggestions :: "exponential \<Rightarrow> minutes \<Rightarrow> string option" where
  "formatTime_suggestions exponential minutes =
     (if falsy minutes then None
      else case minutes of Number m \<Rightarrow>
        (if m < 60 then Some (Number_toString exponential m @ ''m'')
         else let hours = Math_floor (js_div_by (Fin (of_int m)) 60); remainingMinutes = m mod 60
              in if 0 < remainingMinutes
                 then Some (integral_toString exponential hours @ ''h ''
                        @ Number_toString exponential remainingMinutes @ ''m'')
                 else Some (integral_toString exponential hours @ ''h''))
      | _ \<Rightarrow> None)"

subsection \<open>Where the times are shown\<close>

text \<open>
  What a JSX expression leaves on the page: nothing for \<open>null\<close>, \<open>undefined\<close> and \<open>false\<close>,
  the text of a number, 0 included, or an element with a label and the children that
  follow it.
\<close>

datatype rendered = Nothing | NumberText string | Labelled string "string option"

text \<open>The cell of the recipes table: \<open>{formatTime(recipe.prep_time_minutes)}\<close>.\<close>

definition RecipesTable_time_cell :: "exponential \<Rightarrow> minutes \<Rightarrow> string" where
  "RecipesTable_time_cell exponential minutes = formatTime_recipes exponential minutes"

text \<open>
  The recipe detail: \<open>{recipe.prep_time_minutes && (... Prep: {formatTime(...)} ...)}\<close>, and
  the same with \<open>Cook: \<close>.  Where the left operand of \<open>&&\<close> is falsy the expression is that
  operand.
\<close>

definition RecipeDetail_time :: "exponential \<Rightarrow> string \<Rightarrow> minutes \<Rightarrow> rendered" where
  "RecipeDetail_time exponential label minutes =
     (if falsy minutes
      then (case minutes of Number m \<Rightarrow> NumberText (Number_toString exponential m) | _ \<Rightarrow> Nothing)
      else Labelled label (formatTime_detail exponential minutes))"

text \<open>The suggestion card has the same two expressions.\<close>

definition RecipeSuggestionCard_time :: "exponential \<Rightarrow> string \<Rightarrow> minutes \<Rightarrow> rendered" where
  "RecipeSuggestionCard_time exponential label minutes =
     (if falsy minutes
      then (case minutes of Number m \<Rightarrow> NumberText (Number_toString exponential m) | _ \<Rightarrow> Nothing)
      else Labelled label (formatTime_suggestions exponential minutes))"

section \<open>The suggestions route\<close>

subsection \<open>Search parameters: the zod schema\<close>

text \<open>
  \<open>z.number ()\<close> accepts a value of type number that is not \<open>NaN\<close>; \<open>.min (lo)\<close> rejects
  \<open>data < lo\<close>, \<open>.max (hi)\<close> rejects \<open>data > hi\<close>; \<open>.catch (d)\<close> replaces a rejected value
  by \<open>d\<close>.  A rejection is \<open>None\<close>.
\<close>

definition z_number :: "jsval \<Rightarrow> jsnum option" where
  "z_number v = (case v of JNum n \<Rightarrow> (if n = NaN then None else Some n) | _ \<Rightarrow> None)"

definition z_min :: "rat \<Rightarrow> jsnum \<Rightarrow> jsnum option" where
  "z_min lo n = (if js_less n (Fin lo) then None else Some n)"

definition z_max :: "rat \<Rightarrow> jsnum \<Rightarrow> jsnum option" where
  "z_max hi n = (if js_less (Fin hi) n then None else Some n)"

definition z_catch :: "'a \<Rightarrow> 'a option \<Rightarrow> 'a" where
  "z_catch d r = (case r of None \<Rightarrow> d | Some v \<Rightarrow> v)"




record suggestions_search =
  min_match_score :: jsnum
  limit :: jsnum

text \<open>\<open>validateSearch\<close> of the route: \<open>suggestionsSearchSchema.parse (search)\<close>.\<close>

definition suggestionsSearchSchema_parse :: "jsobject \<Rightarrow> suggestions_search" where
  "suggestionsSearchSchema_parse search =
     \<lparr> min_match_score =
         z_catch (Fin (3 / 10))
           (Option.bind (Option.bind (z_number (get_prop search ''min_match_score'')) (z_min 0))
              (z_max 1)),
       limit =
         z_catch (Fin 10)
           (Option.bind (Option.bind (z_number (get_prop search ''limit'')) (z_min 1))
              (z_max 50)) \<rparr>"

text \<open>A search value that is a finite number between \<open>lo\<close> and \<open>hi\<close>: neither missing, nor
  non-numeric, nor out of range.\<close>

fun number_within :: "rat \<Rightarrow> rat \<Rightarrow> jsval \<Rightarrow> bool" where
  "number_within lo hi (JNum (Fin x)) = (lo \<le> x \<and> x \<le> hi)"
| "number_within lo hi _ = False"

text \<open>The arguments of the call \<open>RecipesService.getRecipeSuggestions\<close> made by \<open>queryFn\<close>.\<close>

record getRecipeSuggestions_args =
  minMatchScore :: jsnum
  limit_arg :: jsnum

definition getRecipeSuggestionsQueryOptions :: "jsnum \<Rightarrow> jsnum \<Rightarrow> getRecipeSuggestions_args" where
  "getRecipeSuggestionsQueryOptions mms n = \<lparr> minMatchScore = mms, limit_arg = n \<rparr>"

text \<open>\<open>SuggestionsContent\<close> reads \<open>Route.useSearch ()\<close>, the validated search of the URL, and
  queries with it.\<close>

definition SuggestionsContent_query :: "jsobject \<Rightarrow> getRecipeSuggestions_args" where
  "SuggestionsContent_query url_search =
     (let s = suggestionsSearchSchema_parse url_search
      in getRecipeSuggestionsQueryOptions (min_match_score s) (limit s))"

subsection \<open>The data of a suggestion\<close>

record ingredient =
  ingredient_name :: string
  ingredient_unit :: string

record recipe_ingredient =
  ri_id :: string
  ri_ingredient :: "ingredient option"
  ri_amount :: rat

record recipe_public =
  recipe_id :: string
  recipe_name :: string

record suggestion =
  recipe :: recipe_public
  match_score :: rat
  available_ingredients :: "recipe_ingredient list"
  missing_ingredients :: "recipe_ingredient list"
  total_ingredients :: rat
  available_count :: rat

record suggestions_response =
  response_data :: "suggestion list"

subsection \<open>RecipeSuggestionCard\<close>

text \<open>A JSX child: a string, a number received from the service, a number computed by
  \<open>Math.round\<close>, or \<open>undefined\<close>, which renders nothing.\<close>

datatype child = CText string | CNum rat | CWhole integral | CNothing

record badge =
  badge_key :: "string option"
  colorPalette :: string
  badge_children :: "child list"

definition getMatchScoreColor :: "rat \<Rightarrow> string" where
  "getMatchScoreColor score =
     (if js_ge (Fin score) (literal (8 / 10)) then ''green''
      else if js_ge (Fin score) (literal (6 / 10)) then ''orange''
      else ''red'')"

text \<open>
  The value of the progress bar, \<open>(available_count / total_ingredients) * 100\<close>.  A zero
  divisor gives \<open>NaN\<close> for a zero dividend and otherwise an infinity, whose sign is that of
  the dividend and of the zero; the two infinities are not told apart here.
\<close>

datatype progress_number = Percent rat | PercentInfinite | PercentNaN

definition progress_percent :: "rat \<Rightarrow> rat \<Rightarrow> progress_number" where
  "progress_percent a t =
     (if t = 0 then (if a = 0 then PercentNaN else PercentInfinite)
      else case js_times (round_double (a / t)) (Fin 100) of
             Fin v \<Rightarrow> Percent v
           | NaN \<Rightarrow> PercentNaN
           | _ \<Rightarrow> PercentInfinite)"

text \<open>The children of one ingredient badge; \<open>ing.ingredient?.name\<close> is \<open>undefined\<close> when the
  ingredient is absent.\<close>

definition ingredient_children :: "recipe_ingredient \<Rightarrow> child list" where
  "ingredient_children ing =
     [ (case ri_ingredient ing of None \<Rightarrow> CNothing | Some i \<Rightarrow> CText (ingredient_name i)),
       CText '' ('', CNum (ri_amount ing), CText '' '',
       (case ri_ingredient ing of None \<Rightarrow> CNothing | Some i \<Rightarrow> CText (ingredient_unit i)),
       CText '')'' ]"

text \<open>
  The part of the card that shows the match: the title, the match badge, the ingredients
  heading, the progress bar and the two badge sections.  A section guarded by
  \<open>list.length > 0 &&\<close> is \<open>None\<close> when the guard fails.  The two times of the card are
  \<open>RecipeSuggestionCard_time\<close> above; the recipe's description, cuisine, difficulty, servings
  and instructions are further children of the card and are not part of this record.
\<close>

record suggestion_card =
  card_heading :: string
  match_badge :: badge
  ingredients_text :: "child list"
  progress_value :: progress_number
  progress_colorPalette :: string
  available_section :: "badge list option"
  missing_section :: "badge list option"

definition RecipeSuggestionCard :: "suggestion \<Rightarrow> suggestion_card" where
  "RecipeSuggestionCard s =
     \<lparr> card_heading = recipe_name (recipe s),
       match_badge =
         \<lparr> badge_key = None,
           colorPalette = getMatchScoreColor (match_score s),
           badge_children =
             [CWhole (Math_round (js_times (Fin (match_score s)) (Fin 100))), CText ''% match''] \<rparr>,
       ingredients_text =
         [CText ''Ingredients ('', CNum (available_count s), CText ''/'',
          CNum (total_ingredients s), CText '' available)''],
       progress_value = progress_percent (available_count s) (total_ingredients s),
       progress_colorPalette = getMatchScoreColor (match_score s),
       available_section =
         (if length (available_ingredients s) > 0
          then Some (map (\<lambda>ing. \<lparr> badge_key = Some (ri_id ing), colorPalette = ''green'',
                                  badge_children = ingredient_children ing \<rparr>)
                       (available_ingredients s))
          else None),
       missing_section =
         (if length (missing_ingredients s) > 0
          then Some (map (\<lambda>ing. \<lparr> badge_key = Some (ri_id ing), colorPalette = ''red'',
                                  badge_children = ingredient_children ing \<rparr>)
                       (missing_ingredients s))
          else None) \<rparr>"

text \<open>The badges of a section, none when the section is not rendered.\<close>

definition section_badges :: "badge list option \<Rightarrow> badge list" where
  "section_badges sec = (case sec of None \<Rightarrow> [] | Some bs \<Rightarrow> bs)"



subsection \<open>SuggestionsContent\<close>

text \<open>An element \<open><RecipeSuggestionCard key=... suggestion=... />\<close>.\<close>

record card_element =
  element_key :: string
  suggestion_prop :: suggestion

text \<open>What the component returns below the filter controls.\<close>

datatype suggestions_view = PendingItems | EmptyState | CardStack "card_element list"

text \<open>\<open>data\<close> is \<open>None\<close> while the query has produced nothing (\<open>data?.data ?? []\<close>).\<close>

definition SuggestionsContent :: "bool \<Rightarrow> suggestions_response option \<Rightarrow> suggestions_view" where
  "SuggestionsContent isLoading data =
     (let suggestions = (case data of None \<Rightarrow> [] | Some r \<Rightarrow> response_data r)
      in if isLoading then PendingItems
         else if length suggestions = 0 then EmptyState
         else CardStack (map (\<lambda>s. \<lparr> element_key = recipe_id (recipe s), suggestion_prop = s \<rparr>)
                           suggestions))"

text \<open>The suggestions whose cards a view shows, in order.\<close>

fun shown_suggestions :: "suggestions_view \<Rightarrow> suggestion list" where
  "shown_suggestions (CardStack es) = map suggestion_prop es"
| "shown_suggestions _ = []"

section \<open>The paginated tables\<close>

text \<open>
  Each list route validates the search of the URL with its schema, reads the result with
  \<open>Route.useSearch ()\<close> and queries with it.  The arguments of the list call are \<open>skip\<close>,
  \<open>limit\<close> and, on the ingredients and recipes pages, \<open>search\<close>, where \<open>undefined\<close> is
  \<open>None\<close>.  \<open>skip\<close> is computed in the arithmetic of doubles.
\<close>

record 'a list_response =
  items :: "'a list"
  total :: nat






subsection \<open>routes/\_layout/ingredients.tsx\<close>






definition ingredients_setPage :: "jsnum \<Rightarrow> jsobject \<Rightarrow> jsobject" where
  "ingredients_setPage page prev = prev(''page'' \<mapsto> JNum page)"

definition ingredients_handleSearch :: "string \<Rightarrow> jsobject \<Rightarrow> jsobject" where
  "ingredients_handleSearch newSearch prev =
     prev(''search'' \<mapsto> JStr newSearch, ''page'' \<mapsto> JNum (Fin 1))"

subsection \<open>routes/\_layout/recipes.tsx\<close>






definition recipes_setPage :: "jsnum \<Rightarrow> jsobject \<Rightarrow> jsobject" where
  "recipes_setPage page prev = prev(''page'' \<mapsto> JNum page)"

definition recipes_handleSearch :: "string \<Rightarrow> jsobject \<Rightarrow> jsobject" where
  "recipes_handleSearch newSearch prev =
     prev(''search'' \<mapsto> JStr newSearch, ''page'' \<mapsto> JNum (Fin 1))"

subsection \<open>The pantry route\<close>








definition pantry_setPage :: "jsnum \<Rightarrow> jsobject \<Rightarrow> jsobject" where
  "pantry_setPage page prev = prev(''page'' \<mapsto> JNum page)"

definition toggleExpiringSoon :: "bool \<Rightarrow> jsobject \<Rightarrow> jsobject" where
  "toggleExpiringSoon checked prev =
     prev(''expiring_soon'' \<mapsto> JBool checked, ''page'' \<mapsto> JNum (Fin 1))"

subsection \<open>Expiry badges of a pantry row\<close>

text \<open>
  Time is in milliseconds since the epoch.  \<open>parse\<close> stands for \<open>new Date (s).getTime ()\<close>,
  \<open>None\<close> for an invalid date, whose time is \<open>NaN\<close> and fails every comparison.
  \<open>today\<close> is the reading of the clock taken by \<open>new Date ()\<close> inside the function.
  The expiration date is \<open>string | null\<close>; \<open>null\<close> and the empty string are falsy.
\<close>

definition isExpiringSoon :: "(string \<Rightarrow> int option) \<Rightarrow> int \<Rightarrow> string option \<Rightarrow> bool" where
  "isExpiringSoon parse today expirationDate =
     (case expirationDate of
        None \<Rightarrow> False
      | Some s \<Rightarrow>
          if s = [] then False
          else (case parse s of
                  None \<Rightarrow> False
                | Some expDate \<Rightarrow>
                    (let daysUntilExpiry = Math_ceil_div (expDate - today) (1000 * 60 * 60 * 24)
                     in daysUntilExpiry \<le> 7 \<and> daysUntilExpiry \<ge> 0)))"

definition isExpired :: "(string \<Rightarrow> int option) \<Rightarrow> int \<Rightarrow> string option \<Rightarrow> bool" where
  "isExpired parse today expirationDate =
     (case expirationDate of
        None \<Rightarrow> False
      | Some s \<Rightarrow>
          if s = [] then False
          else (case parse s of None \<Rightarrow> False | Some expDate \<Rightarrow> expDate < today))"

record expiration_cell =
  date_text :: "string option"
  expired_badge :: bool
  soon_badge :: bool

text \<open>
  The expiration cell of a row.  The three calls read the clock one after the other:
  \<open>t1\<close> in the first \<open>isExpired\<close>, \<open>t2\<close> in the second, \<open>t3\<close> in \<open>isExpiringSoon\<close>.
\<close>

definition expiration_cell_of ::
  "(string \<Rightarrow> int option) \<Rightarrow> int \<Rightarrow> int \<Rightarrow> int \<Rightarrow> string option \<Rightarrow> expiration_cell" where
  "expiration_cell_of parse t1 t2 t3 expiration_date =
     (case expiration_date of
        None \<Rightarrow> \<lparr> date_text = None, expired_badge = False, soon_badge = False \<rparr>
      | Some s \<Rightarrow>
          if s = [] then \<lparr> date_text = None, expired_badge = False, soon_badge = False \<rparr>
          else \<lparr> date_text = Some s,
                 expired_badge = isExpired parse t1 expiration_date,
                 soon_badge = (\<not> isExpired parse t2 expiration_date
                               \<and> isExpiringSoon parse t3 expiration_date) \<rparr>)"

text \<open>The time of a row's expiration date, when it has one that parses.\<close>

definition expiry_time :: "(string \<Rightarrow> int option) \<Rightarrow> string option \<Rightarrow> int option" where
  "expiry_time parse expiration_date =
     (case expiration_date of None \<Rightarrow> None | Some s \<Rightarrow> if s = [] then None else parse s)"

text \<open>A date parser that knows two dates, 2024-01-01 and 2024-01-10, at midnight UTC.\<close>

definition sample_parse :: "string \<Rightarrow> int option" where
  "sample_parse s =
     (if s = ''2024-01-10'' then Some 1704844800000
      else if s = ''2024-01-01'' then Some 1704067200000
      else None)"

section \<open>Mutations and the query cache\<close>

text \<open>
  A mutation is the record of callbacks given to \<open>useMutation\<close>; what a callback does is the
  list of its calls, in order.  \<open>useMutation\<close> runs \<open>onSuccess\<close> and then \<open>onSettled\<close> when
  the request resolves, \<open>onError\<close> and then \<open>onSettled\<close> when it is rejected.
\<close>

type_synonym ApiError = string

type_synonym query_key = "string list"

datatype effect =
    showSuccessToast string
  | reset
  | setIsOpen bool
  | handleError ApiError
  | invalidateQueries query_key

record mutation =
  onSuccess :: "effect list"
  onError :: "ApiError \<Rightarrow> effect list"
  onSettled :: "effect list"

datatype outcome = Resolved | Rejected ApiError

definition mutate :: "mutation \<Rightarrow> outcome \<Rightarrow> effect list" where
  "mutate m result =
     (case result of
        Resolved \<Rightarrow> onSuccess m @ onSettled m
      | Rejected err \<Rightarrow> onError m err @ onSettled m)"

text \<open>components/Ingredients/AddIngredient.tsx\<close>

definition AddIngredient_mutation :: mutation where
  "AddIngredient_mutation =
     \<lparr> onSuccess = [showSuccessToast ''Ingredient created successfully.'', reset, setIsOpen False],
       onError = (\<lambda>err. [handleError err]),
       onSettled = [invalidateQueries [''ingredients'']] \<rparr>"

text \<open>components/Ingredients/EditIngredient.tsx\<close>

definition EditIngredient_mutation :: mutation where
  "EditIngredient_mutation =
     \<lparr> onSuccess = [showSuccessToast ''Ingredient updated successfully.'', setIsOpen False],
       onError = (\<lambda>err. [handleError err]),
       onSettled = [invalidateQueries [''ingredients'']] \<rparr>"

text \<open>components/Recipes/AddRecipe.tsx\<close>

definition AddRecipe_mutation :: mutation where
  "AddRecipe_mutation =
     \<lparr> onSuccess = [showSuccessToast ''Recipe created successfully.'', reset, setIsOpen False],
       onError = (\<lambda>err. [handleError err]),
       onSettled = [invalidateQueries [''recipes'']] \<rparr>"

text \<open>The edit dialog of a recipe, for the recipe with the given id.\<close>

definition EditRecipe_mutation :: "string \<Rightarrow> mutation" where
  "EditRecipe_mutation rid =
     \<lparr> onSuccess = [showSuccessToast ''Recipe updated successfully.'', setIsOpen False],
       onError = (\<lambda>err. [handleError err]),
       onSettled = [invalidateQueries [''recipes''], invalidateQueries [''recipe'', rid]] \<rparr>"

text \<open>The add-to-pantry dialog.\<close>

definition AddUserIngredient_mutation :: mutation where
  "AddUserIngredient_mutation =
     \<lparr> onSuccess = [showSuccessToast ''Ingredient added to your pantry successfully.'', reset,
                    setIsOpen False],
       onError = (\<lambda>err. [handleError err]),
       onSettled = [invalidateQueries [''user-ingredients'']] \<rparr>"

text \<open>components/Recipes/AddRecipeIngredient.tsx\<close>

definition AddRecipeIngredient_mutation :: "string \<Rightarrow> mutation" where
  "AddRecipeIngredient_mutation recipeId =
     \<lparr> onSuccess = [showSuccessToast ''Ingredient added to recipe successfully.'', reset,
                    setIsOpen False],
       onError = (\<lambda>err. [handleError err]),
       onSettled = [invalidateQueries [''recipe-ingredients'', recipeId]] \<rparr>"

text \<open>components/Recipes/RecipeIngredients.tsx: the delete button of a table row, confirmed
  through \<open>window.confirm\<close>; the component has no dialog state.\<close>

definition deleteMutation :: "string \<Rightarrow> mutation" where
  "deleteMutation recipeId =
     \<lparr> onSuccess = [showSuccessToast ''Ingredient removed from recipe successfully.''],
       onError = (\<lambda>err. [handleError err]),
       onSettled = [invalidateQueries [''recipe-ingredients'', recipeId]] \<rparr>"

text \<open>The mutations of the dialogs, and all mutations.\<close>

definition dialog_mutations :: "string \<Rightarrow> string \<Rightarrow> mutation list" where
  "dialog_mutations rid recipeId =
     [AddIngredient_mutation, EditIngredient_mutation, AddRecipe_mutation,
      EditRecipe_mutation rid, AddUserIngredient_mutation,
      AddRecipeIngredient_mutation recipeId]"

definition all_mutations :: "string \<Rightarrow> string \<Rightarrow> mutation list" where
  "all_mutations rid recipeId = dialog_mutations rid recipeId @ [deleteMutation recipeId]"

text \<open>The keys a list of calls invalidates.\<close>

fun invalidated :: "effect list \<Rightarrow> query_key list" where
  "invalidated [] = []"
| "invalidated (invalidateQueries k # es) = k # invalidated es"
| "invalidated (_ # es) = invalidated es"

section \<open>Properties of the rounding\<close>

lemma round_half_even_of_int: "round_half_even (of_int k) = k"
  by (simp add: round_half_even_def)

lemma round_half_even_near: "\<bar>of_int (round_half_even y) - y\<bar> \<le> 1 / 2"
proof -
  define f where "f = y - of_int \<lfloor>y\<rfloor>"
  have f: "0 \<le> f" "f < 1" unfolding f_def by linarith+
  consider "f < 1 / 2" | "1 / 2 < f" | "f = 1 / 2" by linarith
  then show ?thesis
  proof cases
    case 1
    then have "round_half_even y = \<lfloor>y\<rfloor>"
      by (simp add: round_half_even_def Let_def f_def)
    then have "of_int (round_half_even y) - y = - f" by (simp add: f_def)
    then show ?thesis using f 1 by (simp add: abs_if)
  next
    case 2
    then have "round_half_even y = \<lfloor>y\<rfloor> + 1"
      by (simp add: round_half_even_def Let_def f_def)
    then have "of_int (round_half_even y) - y = 1 - f" by (simp add: f_def)
    then show ?thesis using f 2 by (simp add: abs_if)
  next
    case 3
    then have "round_half_even y = \<lfloor>y\<rfloor> \<or> round_half_even y = \<lfloor>y\<rfloor> + 1"
      by (simp add: round_half_even_def Let_def f_def)
    then have "of_int (round_half_even y) - y = - f \<or> of_int (round_half_even y) - y = 1 - f"
      by (auto simp add: f_def)
    then show ?thesis using 3 by (auto simp add: abs_if)
  qed
qed

text \<open>The exponent of a number from 1 on is that of its integer part.\<close>

lemma binade_ge_1:
  assumes "1 \<le> a" "a < 2 ^ w"
  shows "0 \<le> binade a" "binade a < int w"
proof -
  have f: "1 \<le> \<lfloor>a\<rfloor>" using assms(1) by simp
  have "\<lfloor>a\<rfloor> < 2 ^ w"
    using assms(2) by (simp add: floor_less_iff)
  then have "bitlen \<lfloor>a\<rfloor> \<le> int w"
    by (simp add: bitlen_le_iff_power)
  moreover have "1 \<le> bitlen \<lfloor>a\<rfloor>"
    using f bitlen_eq_zero_iff [of "\<lfloor>a\<rfloor>"] bitlen_nonneg [of "\<lfloor>a\<rfloor>"] by linarith
  ultimately show "0 \<le> binade a" "binade a < int w"
    using assms(1) by (simp_all add: binade_def)
qed

text \<open>Between 1 and \<open>2^53\<close> the doubles are the multiples of \<open>2^(e - 52)\<close>.\<close>

lemma round_double_small:
  assumes "1 \<le> a" "a < 2 ^ 53"
  shows "round_double a
    = Fin (of_int (round_half_even (a * 2 ^ nat (52 - binade a))) / 2 ^ nat (52 - binade a))"
proof -
  from binade_ge_1 [OF assms] have e: "0 \<le> binade a" "binade a < 53" by simp_all
  define k where "k = nat (52 - binade a)"
  have p: "pow2 (max (binade a) (- 1022) - 52) = 1 / 2 ^ k"
  proof (cases "binade a = 52")
    case True
    then show ?thesis by (simp add: pow2_def k_def)
  next
    case False
    with e have "binade a - 52 < 0" by simp
    moreover have "nat (52 - binade a) = k" by (simp add: k_def)
    ultimately show ?thesis using e by (simp add: pow2_def max_def)
  qed
  have a: "a \<noteq> 0" "0 < a" "\<bar>a\<bar> = a" using assms(1) by simp_all
  show ?thesis
    unfolding round_double_def Let_def p a(3) k_def [symmetric]
    using a e by simp
qed

lemma round_double_uminus:
  "round_double (- x)
     = (case round_double x of Fin r \<Rightarrow> Fin (- r) | NaN \<Rightarrow> NaN | PosInf \<Rightarrow> NegInf | NegInf \<Rightarrow> PosInf)"
  by (cases "x = 0"; cases "0 < x") (simp_all add: round_double_def Let_def)


lemma round_double_nat:
  assumes "1 \<le> n" "n < 2 ^ 53"
  shows "round_double (of_int n) = Fin (of_int n)"
proof -
  have b: "(1::rat) \<le> of_int n" "(of_int n :: rat) < 2 ^ 53"
    using assms by (simp_all add: of_int_less_numeral_power_cancel_iff)
  define k where "k = nat (52 - binade (of_int n))"
  have "(of_int n :: rat) * 2 ^ k = of_int (n * 2 ^ k)" by simp
  then have "round_half_even (of_int n * 2 ^ k) = n * 2 ^ k"
    by (simp only: round_half_even_of_int)
  then show ?thesis
    using round_double_small [OF b] by (simp add: k_def)
qed

text \<open>A whole number below \<open>2^53\<close> in size is a double.\<close>

lemma round_double_int:
  assumes "\<bar>n\<bar> < 2 ^ 53"
  shows "round_double (of_int n) = Fin (of_int n)"
proof -
  consider "n = 0" | "1 \<le> n" | "1 \<le> - n" by linarith
  then show ?thesis
  proof cases
    case 1
    then show ?thesis by (simp add: round_double_def)
  next
    case 2
    with assms show ?thesis by (intro round_double_nat) simp_all
  next
    case 3
    with assms have "round_double (of_int (- n)) = Fin (of_int (- n))"
      by (intro round_double_nat) simp_all
    then have "round_double (- of_int (- n)) = Fin (of_int n)"
      unfolding round_double_uminus by simp
    then show ?thesis by simp
  qed
qed

text \<open>Between 1 and \<open>2^48\<close> rounding moves a number by \<open>1/64\<close> at most.\<close>

lemma round_double_near:
  assumes "1 \<le> a" "a < 2 ^ 48"
  shows "\<exists>r. round_double a = Fin r \<and> \<bar>r - a\<bar> \<le> 1 / 64"
proof -
  from binade_ge_1 [OF assms] have e: "0 \<le> binade a" "binade a < 48" by simp_all
  define k where "k = nat (52 - binade a)"
  define n where "n = round_half_even (a * 2 ^ k)"
  have k: "5 \<le> k" using e by (simp add: k_def)
  have "a < 2 ^ 53" using assms(2) by simp
  from round_double_small [OF assms(1) this]
  have r: "round_double a = Fin (of_int n / 2 ^ k)" by (simp add: k_def n_def)
  have "\<bar>of_int n - a * 2 ^ k\<bar> \<le> 1 / 2"
    unfolding n_def by (rule round_half_even_near)
  then have "\<bar>of_int n - a * 2 ^ k\<bar> / 2 ^ k \<le> (1 / 2) / 2 ^ k"
    by (rule divide_right_mono) simp
  moreover have "\<bar>of_int n - a * 2 ^ k\<bar> / 2 ^ k = \<bar>of_int n / 2 ^ k - a\<bar>"
  proof -
    have "of_int n / 2 ^ k - a = (of_int n - a * 2 ^ k) / 2 ^ k"
      by (simp add: diff_divide_distrib)
    then show ?thesis by simp
  qed
  moreover have "(1 / 2) / (2::rat) ^ k \<le> 1 / 64"
  proof -
    have "(2::rat) ^ 5 \<le> 2 ^ k" using k by (intro power_increasing) simp_all
    then have "(64::rat) \<le> 2 * 2 ^ k" by simp
    then show ?thesis by (simp add: field_simps)
  qed
  ultimately have "\<bar>of_int n / 2 ^ k - a\<bar> \<le> 1 / 64" by linarith
  with r show ?thesis by blast
qed

text \<open>Below \<open>2^53\<close> minutes, \<open>Math.floor (minutes / 60)\<close> is the whole number of hours.\<close>

lemma floor_quotient_60:
  assumes "60 \<le> m" "m < 2 ^ 53"
  shows "\<exists>r. round_double (of_int m / 60) = Fin r \<and> \<lfloor>r\<rfloor> = m div 60"
proof (cases "m mod 60 = 0")
  case True
  then have m: "m = 60 * (m div 60)" by presburger
  have q: "\<bar>m div 60\<bar> < 2 ^ 53" using assms by simp
  have "(of_int m :: rat) / 60 = of_int (m div 60)"
    by (subst m) simp
  with round_double_int [OF q] show ?thesis by simp
next
  case False
  define q where "q = m div 60"
  define t where "t = m mod 60"
  have t: "1 \<le> t" "t \<le> 59" using False by (simp_all add: t_def)
  have m: "m = 60 * q + t" by (simp add: q_def t_def)
  have x: "(of_int m :: rat) / 60 = of_int q + of_int t / 60"
    by (simp add: m add_divide_distrib)
  have lo: "of_int q + 1 / 60 \<le> (of_int m :: rat) / 60"
    using t(1) by (simp add: x divide_right_mono)
  have hi: "(of_int m :: rat) / 60 \<le> of_int q + 59 / 60"
    using t(2) by (simp add: x divide_right_mono)
  have b1: "(1::rat) \<le> of_int m / 60" using assms(1) by simp
  have "(of_int m :: rat) < 2 ^ 53"
    using assms(2) by (simp add: of_int_less_numeral_power_cancel_iff)
  then have b2: "(of_int m :: rat) / 60 < 2 ^ 48" by simp
  from round_double_near [OF b1 b2] obtain r where
    r: "round_double (of_int m / 60) = Fin r" "\<bar>r - of_int m / 60\<bar> \<le> 1 / 64" by blast
  from r(2) lo hi have "of_int q \<le> r" "r < of_int q + 1" by linarith+
  then have "\<lfloor>r\<rfloor> = q" by (simp add: floor_unique)
  with r(1) show ?thesis by (auto simp add: q_def)
qed

section \<open>Properties of formatTime\<close>

lemma Number_toString_digits:
  assumes "0 \<le> i" "i < 2 ^ 53"
  shows "Number_toString ex i = decimal_digits (nat i)"
  using assms by (simp add: Number_toString_def)

lemma hours_below_2_53:
  assumes "60 \<le> m" "m < 2 ^ 53"
  shows "integral_toString ex (Math_floor (js_div_by (Fin (of_int m)) 60))
         = decimal_digits (nat (m div 60))"
proof -
  from floor_quotient_60 [OF assms] obtain r where
    r: "round_double (of_int m / 60) = Fin r" "\<lfloor>r\<rfloor> = m div 60" by blast
  have "0 \<le> m div 60" "m div 60 < 2 ^ 53" using assms by simp_all
  from Number_toString_digits [OF this] r show ?thesis
    by (simp add: js_div_by_def Math_floor_def integral_toString_def)
qed

lemma formatTime_copies:
  "formatTime_detail ex x = (if falsy x then None else Some (formatTime_recipes ex x))"
  "formatTime_suggestions ex x = (if falsy x then None else Some (formatTime_recipes ex x))"
  by (cases x; simp add: formatTime_recipes_def formatTime_detail_def formatTime_suggestions_def
      Let_def)+

text \<open>
  C3, as stated, is about every integer \<open>m \<ge> 1\<close>, with the hours \<open>m div 60\<close>.  The hours
  of the code are \<open>Math.floor\<close> of a division of doubles: at 67553994410557496 minutes, a
  double, the quotient rounds up to the next whole number and the result shows one hour
  more than \<open>m div 60\<close>.
\<close>

theorem formatTime_floor_counterexample:
  "formatTime_recipes sample_exponential (Number 67553994410557496) = ''1125899906842625h 56m''
   \<and> Number_toString sample_exponential (67553994410557496 div 60) @ ''h ''
       @ Number_toString sample_exponential (67553994410557496 mod 60) @ ''m''
       = ''1125899906842624h 56m''
   \<and> formatTime_recipes sample_exponential (Number 67553994410557496)
       \<noteq> Number_toString sample_exponential (67553994410557496 div 60) @ ''h ''
           @ Number_toString sample_exponential (67553994410557496 mod 60) @ ''m''"
proof -
  have h: "Math_floor (js_div_by (Fin 67553994410557496) 60) = Whole 1125899906842625"
    by code_simp
  have a: "formatTime_recipes sample_exponential (Number 67553994410557496)
             = ''1125899906842625h 56m''"
    by (simp add: formatTime_recipes_def h integral_toString_def Number_toString_def
        digit_char_def)
  have b: "Number_toString sample_exponential (67553994410557496 div 60) @ ''h ''
       @ Number_toString sample_exponential (67553994410557496 mod 60) @ ''m''
       = ''1125899906842624h 56m''"
    by (simp add: Number_toString_def digit_char_def)
  show ?thesis unfolding a b by simp
qed

text \<open>
  C3, amended.  For every whole number of minutes \<open>m\<close> with \<open>1 \<le> m < 2^53\<close>: below 60 the
  result is the decimal number followed by \<open>m\<close>; from 60 on it is the hours \<open>m div 60\<close>
  followed by \<open>h\<close>, and then, when the remainder \<open>m mod 60\<close> is positive, a space, the
  remainder and \<open>m\<close>.  The copies in the recipes list, the recipe detail and the suggestions
  card return the same string.
\<close>

theorem formatTime_spec:
  assumes "1 \<le> m" "m < 2 ^ 53"
  shows "(m < 60 \<longrightarrow> formatTime_recipes ex (Number m) = decimal_digits (nat m) @ ''m'')
       \<and> (60 \<le> m \<and> 0 < m mod 60 \<longrightarrow>
            formatTime_recipes ex (Number m)
              = decimal_digits (nat (m div 60)) @ ''h '' @ decimal_digits (nat (m mod 60)) @ ''m'')
       \<and> (60 \<le> m \<and> m mod 60 = 0 \<longrightarrow>
            formatTime_recipes ex (Number m) = decimal_digits (nat (m div 60)) @ ''h'')
       \<and> formatTime_detail ex (Number m) = Some (formatTime_recipes ex (Number m))
       \<and> formatTime_suggestions ex (Number m) = Some (formatTime_recipes ex (Number m))"
proof -
  have a: "m < 60 \<longrightarrow> formatTime_recipes ex (Number m) = decimal_digits (nat m) @ ''m''"
    using assms by (simp add: formatTime_recipes_def Number_toString_digits)
  have t: "Number_toString ex (m mod 60) = decimal_digits (nat (m mod 60))"
    by (rule Number_toString_digits) simp_all
  have b: "60 \<le> m \<and> 0 < m mod 60 \<longrightarrow>
            formatTime_recipes ex (Number m)
              = decimal_digits (nat (m div 60)) @ ''h '' @ decimal_digits (nat (m mod 60)) @ ''m''"
    using assms hours_below_2_53 [of m ex]
    by (simp add: formatTime_recipes_def Let_def t)
  have c: "60 \<le> m \<and> m mod 60 = 0 \<longrightarrow>
            formatTime_recipes ex (Number m) = decimal_digits (nat (m div 60)) @ ''h''"
    using assms hours_below_2_53 [of m ex]
    by (simp add: formatTime_recipes_def Let_def)
  have d: "formatTime_detail ex (Number m) = Some (formatTime_recipes ex (Number m))"
    "formatTime_suggestions ex (Number m) = Some (formatTime_recipes ex (Number m))"
    using assms(1) by (simp_all add: formatTime_copies)
  from a b c d show ?thesis by blast
qed

theorem formatTime_spec_witness:
  "(1::int) \<le> 45 \<and> (45::int) < 2 ^ 53 \<and> (45::int) < 60
   \<and> formatTime_recipes sample_exponential (Number 45) = ''45m''
   \<and> (1::int) \<le> 90 \<and> (90::int) < 2 ^ 53 \<and> (60::int) \<le> 90 \<and> (0::int) < 90 mod 60
   \<and> formatTime_recipes sample_exponential (Number 90) = ''1h 30m''
   \<and> (1::int) \<le> 120 \<and> (120::int) < 2 ^ 53 \<and> (60::int) \<le> 120 \<and> (120::int) mod 60 = 0
   \<and> formatTime_recipes sample_exponential (Number 120) = ''2h''
   \<and> formatTime_detail sample_exponential (Number 90) = Some ''1h 30m''
   \<and> formatTime_suggestions sample_exponential (Number 90) = Some ''1h 30m''"
  using formatTime_spec [of 45 sample_exponential] formatTime_spec [of 90 sample_exponential]
    formatTime_spec [of 120 sample_exponential]
  by (simp add: digit_char_def)

text \<open>From \<open>10^21\<close> hours on, the hours are printed in exponent notation.\<close>

lemma formatTime_exponent_notation:
  "formatTime_recipes sample_exponential (Number (6 * 10 ^ 22)) = ''1e+21h''"
proof -
  have h: "Math_floor (js_div_by (Fin 60000000000000000000000) 60) = Whole (10 ^ 21)"
    by code_simp
  show ?thesis
    by (simp add: formatTime_recipes_def h integral_toString_def Number_toString_def
        sample_exponential_def)
qed

lemma last_formatTime_recipes:
  "m \<noteq> 0 \<Longrightarrow> last (formatTime_recipes ex (Number m)) \<in> {CHR ''m'', CHR ''h''}"
  by (simp add: formatTime_recipes_def Let_def)

text \<open>
  Each copy of formatTime returns its absent value, the string \<open>N/A\<close> in the recipes list
  and \<open>null\<close> in the other two, exactly for the falsy arguments \<open>0\<close>, \<open>null\<close> and
  \<open>undefined\<close>.
\<close>

lemma formatTime_absent_iff_falsy:
  "(formatTime_recipes ex x = ''N/A'') = falsy x
   \<and> (formatTime_detail ex x = None) = falsy x
   \<and> (formatTime_suggestions ex x = None) = falsy x
   \<and> falsy x = (x = Number 0 \<or> x = Null \<or> x = Undefined)"
proof -
  have a: "(formatTime_recipes ex x = ''N/A'') = falsy x"
  proof (cases x)
    case (Number m)
    show ?thesis
    proof (cases "m = 0")
      case True
      then show ?thesis using Number by (simp add: formatTime_recipes_def)
    next
      case False
      from last_formatTime_recipes [OF False, of ex]
      have "formatTime_recipes ex (Number m) \<noteq> ''N/A''"
        by auto
      then show ?thesis using Number False by simp
    qed
  qed (simp_all add: formatTime_recipes_def)
  have b: "(formatTime_detail ex x = None) = falsy x"
    "(formatTime_suggestions ex x = None) = falsy x"
    by (simp_all add: formatTime_copies)
  have d: "falsy x = (x = Number 0 \<or> x = Null \<or> x = Undefined)"
    by (cases x) auto
  from a b d show ?thesis by blast
qed

text \<open>
  C10 has a zero-minute time displayed as missing.  It is shown as \<open>N/A\<close> in the recipes
  list.  In the recipe detail and in the suggestion card the guard \<open>minutes && ...\<close> keeps
  formatTime from being called, and what is shown for zero minutes is the operand itself,
  the text \<open>0\<close>, where a time that is \<open>null\<close> shows nothing.
\<close>

theorem zero_minutes_display:
  "RecipesTable_time_cell sample_exponential (Number 0) = ''N/A''
   \<and> RecipeDetail_time sample_exponential ''Prep: '' (Number 0) = NumberText ''0''
   \<and> RecipeDetail_time sample_exponential ''Cook: '' (Number 0) = NumberText ''0''
   \<and> RecipeSuggestionCard_time sample_exponential ''Prep: '' (Number 0) = NumberText ''0''
   \<and> RecipeSuggestionCard_time sample_exponential ''Cook: '' (Number 0) = NumberText ''0''
   \<and> RecipeDetail_time sample_exponential ''Prep: '' Null = Nothing
   \<and> RecipeSuggestionCard_time sample_exponential ''Prep: '' Null = Nothing"
  by (simp add: RecipesTable_time_cell_def RecipeDetail_time_def RecipeSuggestionCard_time_def
      formatTime_recipes_def Number_toString_def digit_char_def)

section \<open>Properties of the suggestions route\<close>

text \<open>
  C1.  Once the query is not loading and has a response, the cards of the view are the
  elements of the response's data array, in the same order and of the same number, and
  the empty-state placeholder is shown exactly when that array is empty.
\<close>

theorem SuggestionsContent_shows_response:
  "shown_suggestions (SuggestionsContent False (Some r)) = response_data r
   \<and> length (shown_suggestions (SuggestionsContent False (Some r))) = length (response_data r)
   \<and> (SuggestionsContent False (Some r) = EmptyState) = (response_data r = [])"
  by (simp add: SuggestionsContent_def Let_def comp_def)

text \<open>
  C2.  The ingredients heading shows \<open>available_count\<close> and \<open>total_ingredients\<close> as received,
  whatever the two ingredient lists are; the available ingredients are rendered as one
  green badge each and the missing ones as one red badge each, in the order of the lists,
  none added, dropped or moved to the other section.
\<close>

theorem RecipeSuggestionCard_verbatim:
  "ingredients_text (RecipeSuggestionCard s)
     = [CText ''Ingredients ('', CNum (available_count s), CText ''/'',
        CNum (total_ingredients s), CText '' available)'']
   \<and> ingredients_text
        (RecipeSuggestionCard (s\<lparr>available_ingredients := xs, missing_ingredients := ys\<rparr>))
     = ingredients_text (RecipeSuggestionCard s)
   \<and> section_badges (available_section (RecipeSuggestionCard s))
     = map (\<lambda>ing. \<lparr> badge_key = Some (ri_id ing), colorPalette = ''green'',
                     badge_children = ingredient_children ing \<rparr>) (available_ingredients s)
   \<and> section_badges (missing_section (RecipeSuggestionCard s))
     = map (\<lambda>ing. \<lparr> badge_key = Some (ri_id ing), colorPalette = ''red'',
                     badge_children = ingredient_children ing \<rparr>) (missing_ingredients s)
   \<and> length (section_badges (available_section (RecipeSuggestionCard s)))
     = length (available_ingredients s)
   \<and> length (section_badges (missing_section (RecipeSuggestionCard s)))
     = length (missing_ingredients s)"
  by (simp add: RecipeSuggestionCard_def section_badges_def)








text \<open>The schema's number with bounds and fallback, as one case distinction.\<close>

lemma z_number_min_max_catch:
  "z_catch d (Option.bind (Option.bind (z_number v) (z_min lo)) (z_max hi))
     = (case v of
          JNum (Fin x) \<Rightarrow> if lo \<le> x \<and> x \<le> hi then Fin x else d
        | _ \<Rightarrow> d)"
proof (cases v)
  case (JNum n)
  then show ?thesis
    by (cases n) (simp_all add: z_number_def z_min_def z_max_def z_catch_def)
qed (simp_all add: z_number_def z_catch_def)

lemma min_match_score_parse:
  "min_match_score (suggestionsSearchSchema_parse search)
     = (case get_prop search ''min_match_score'' of
          JNum (Fin x) \<Rightarrow> if 0 \<le> x \<and> x \<le> 1 then Fin x else Fin (3 / 10)
        | _ \<Rightarrow> Fin (3 / 10))"
  unfolding suggestionsSearchSchema_parse_def z_number_min_max_catch by simp

lemma limit_parse:
  "limit (suggestionsSearchSchema_parse search)
     = (case get_prop search ''limit'' of
          JNum (Fin x) \<Rightarrow> if 1 \<le> x \<and> x \<le> 50 then Fin x else Fin 10
        | _ \<Rightarrow> Fin 10)"
  unfolding suggestionsSearchSchema_parse_def z_number_min_max_catch by simp

lemma caught_number:
  assumes "lo \<le> d" "d \<le> hi"
  shows "\<exists>s. (case v of JNum (Fin x) \<Rightarrow> if lo \<le> x \<and> x \<le> hi then Fin x else Fin d | _ \<Rightarrow> Fin d) = Fin s
       \<and> lo \<le> s \<and> s \<le> hi
       \<and> (\<not> number_within lo hi v \<longrightarrow> s = d)
       \<and> (number_within lo hi v \<longrightarrow> v = JNum (Fin s))"
proof (cases v)
  case (JNum n)
  then show ?thesis using assms by (cases n) auto
qed (use assms in simp_all)

text \<open>
  C5.  For every search object of the URL, the validated \<open>min_match_score\<close> is a finite
  number between 0 and 1 and the validated \<open>limit\<close> one between 1 and 50; a value that is
  missing, not a number or out of range is replaced by 0.3, respectively 10, and a value
  in range is kept; the call to the service passes exactly the two validated values.
\<close>

theorem suggestions_search_bounds:
  "\<exists>s l. min_match_score (suggestionsSearchSchema_parse search) = Fin s \<and> 0 \<le> s \<and> s \<le> 1
       \<and> limit (suggestionsSearchSchema_parse search) = Fin l \<and> 1 \<le> l \<and> l \<le> 50
       \<and> SuggestionsContent_query search = \<lparr> minMatchScore = Fin s, limit_arg = Fin l \<rparr>
       \<and> (\<not> number_within 0 1 (get_prop search ''min_match_score'') \<longrightarrow> s = 3 / 10)
       \<and> (\<not> number_within 1 50 (get_prop search ''limit'') \<longrightarrow> l = 10)
       \<and> (number_within 0 1 (get_prop search ''min_match_score'') \<longrightarrow>
            get_prop search ''min_match_score'' = JNum (Fin s))
       \<and> (number_within 1 50 (get_prop search ''limit'') \<longrightarrow>
            get_prop search ''limit'' = JNum (Fin l))"
proof -
  obtain s where s:
    "min_match_score (suggestionsSearchSchema_parse search) = Fin s" "0 \<le> s" "s \<le> 1"
    "\<not> number_within 0 1 (get_prop search ''min_match_score'') \<longrightarrow> s = 3 / 10"
    "number_within 0 1 (get_prop search ''min_match_score'') \<longrightarrow>
       get_prop search ''min_match_score'' = JNum (Fin s)"
    using caught_number [of 0 "3 / 10" 1 "get_prop search ''min_match_score''"]
    unfolding min_match_score_parse by auto
  obtain l where l:
    "limit (suggestionsSearchSchema_parse search) = Fin l" "1 \<le> l" "l \<le> 50"
    "\<not> number_within 1 50 (get_prop search ''limit'') \<longrightarrow> l = 10"
    "number_within 1 50 (get_prop search ''limit'') \<longrightarrow> get_prop search ''limit'' = JNum (Fin l)"
    using caught_number [of 1 10 50 "get_prop search ''limit''"]
    unfolding limit_parse by auto
  have q: "SuggestionsContent_query search = \<lparr> minMatchScore = Fin s, limit_arg = Fin l \<rparr>"
    using s(1) l(1)
    by (simp add: SuggestionsContent_query_def getRecipeSuggestionsQueryOptions_def Let_def)
  show ?thesis
    apply (rule exI [of _ s])
    apply (rule exI [of _ l])
    using s l q apply simp
    done
qed

theorem suggestions_search_bounds_witness:
  "\<not> number_within 0 1
       (get_prop [''min_match_score'' \<mapsto> JStr ''high'', ''limit'' \<mapsto> JNum (Fin 500)]
          ''min_match_score'')
   \<and> \<not> number_within 1 50
       (get_prop [''min_match_score'' \<mapsto> JStr ''high'', ''limit'' \<mapsto> JNum (Fin 500)] ''limit'')
   \<and> SuggestionsContent_query [''min_match_score'' \<mapsto> JStr ''high'', ''limit'' \<mapsto> JNum (Fin 500)]
       = \<lparr> minMatchScore = Fin (3 / 10), limit_arg = Fin 10 \<rparr>
   \<and> number_within 0 1
       (get_prop [''min_match_score'' \<mapsto> JNum (Fin (1 / 2)), ''limit'' \<mapsto> JNum (Fin 20)]
          ''min_match_score'')
   \<and> number_within 1 50
       (get_prop [''min_match_score'' \<mapsto> JNum (Fin (1 / 2)), ''limit'' \<mapsto> JNum (Fin 20)] ''limit'')
   \<and> SuggestionsContent_query [''min_match_score'' \<mapsto> JNum (Fin (1 / 2)), ''limit'' \<mapsto> JNum (Fin 20)]
       = \<lparr> minMatchScore = Fin (1 / 2), limit_arg = Fin 20 \<rparr>"
  using suggestions_search_bounds
      [of "[''min_match_score'' \<mapsto> JStr ''high'', ''limit'' \<mapsto> JNum (Fin 500)]"]
    suggestions_search_bounds
      [of "[''min_match_score'' \<mapsto> JNum (Fin (1 / 2)), ''limit'' \<mapsto> JNum (Fin 20)]"]
  by (auto simp add: get_prop_def)

section \<open>Properties of the paginated tables\<close>





text \<open>Beyond \<open>2^53\<close> the subtraction rounds: the page \<open>2^53 + 2\<close> skips ten times \<open>2^53\<close>
  rows.\<close>

lemma skip_beyond_2_53:
  "js_times (js_minus (Fin 9007199254740994) (Fin 1)) (Fin 10) = Fin 90071992547409920"
  by code_simp




text \<open>
  C9.  Submitting a search term on the ingredients or recipes page, or toggling the
  expiring-soon filter on the pantry page, sets \<open>page\<close> to 1 and the submitted parameter to
  its new value and leaves every other search parameter as it was; setting the page
  changes the \<open>page\<close> parameter only.
\<close>

theorem search_navigation_frame:
  "ingredients_handleSearch newSearch prev ''page'' = Some (JNum (Fin 1))
   \<and> ingredients_handleSearch newSearch prev ''search'' = Some (JStr newSearch)
   \<and> (\<forall>k. k \<noteq> ''page'' \<and> k \<noteq> ''search'' \<longrightarrow> ingredients_handleSearch newSearch prev k = prev k)
   \<and> recipes_handleSearch newSearch prev ''page'' = Some (JNum (Fin 1))
   \<and> recipes_handleSearch newSearch prev ''search'' = Some (JStr newSearch)
   \<and> (\<forall>k. k \<noteq> ''page'' \<and> k \<noteq> ''search'' \<longrightarrow> recipes_handleSearch newSearch prev k = prev k)
   \<and> toggleExpiringSoon checked prev ''page'' = Some (JNum (Fin 1))
   \<and> toggleExpiringSoon checked prev ''expiring_soon'' = Some (JBool checked)
   \<and> (\<forall>k. k \<noteq> ''page'' \<and> k \<noteq> ''expiring_soon'' \<longrightarrow> toggleExpiringSoon checked prev k = prev k)
   \<and> ingredients_setPage page prev ''page'' = Some (JNum page)
   \<and> recipes_setPage page prev ''page'' = Some (JNum page)
   \<and> pantry_setPage page prev ''page'' = Some (JNum page)
   \<and> (\<forall>k. k \<noteq> ''page'' \<longrightarrow>
         ingredients_setPage page prev k = prev k
         \<and> recipes_setPage page prev k = prev k
         \<and> pantry_setPage page prev k = prev k)"
  by (simp add: ingredients_handleSearch_def recipes_handleSearch_def toggleExpiringSoon_def
      ingredients_setPage_def recipes_setPage_def pantry_setPage_def)

theorem search_navigation_frame_witness:
  "''search'' \<noteq> ''page''
   \<and> ingredients_handleSearch ''salt'' [''page'' \<mapsto> JNum (Fin 3), ''search'' \<mapsto> JStr ''sugar''] ''page''
       = Some (JNum (Fin 1))
   \<and> ''sort'' \<noteq> ''page'' \<and> ''sort'' \<noteq> ''search'' \<and> ''sort'' \<noteq> ''expiring_soon''
   \<and> ingredients_handleSearch ''salt'' [''page'' \<mapsto> JNum (Fin 3), ''sort'' \<mapsto> JStr ''name''] ''sort''
       = Some (JStr ''name'')
   \<and> recipes_handleSearch ''salt'' [''page'' \<mapsto> JNum (Fin 3), ''sort'' \<mapsto> JStr ''name''] ''sort''
       = Some (JStr ''name'')
   \<and> toggleExpiringSoon True [''page'' \<mapsto> JNum (Fin 3), ''sort'' \<mapsto> JStr ''name''] ''sort''
       = Some (JStr ''name'')
   \<and> pantry_setPage (Fin 2) [''page'' \<mapsto> JNum (Fin 3), ''sort'' \<mapsto> JStr ''name''] ''sort''
       = Some (JStr ''name'')
   \<and> ingredients_setPage (Fin 2) [''page'' \<mapsto> JNum (Fin 3), ''search'' \<mapsto> JStr ''sugar''] ''search''
       = Some (JStr ''sugar'')"
  using search_navigation_frame
      [of "''salt''" "[''page'' \<mapsto> JNum (Fin 3), ''sort'' \<mapsto> JStr ''name'']" True "Fin 2"]
    search_navigation_frame
      [of "''salt''" "[''page'' \<mapsto> JNum (Fin 3), ''search'' \<mapsto> JStr ''sugar'']" True "Fin 2"]
  by simp

section \<open>Properties of the expiry badges\<close>

lemma Math_ceil_div_ceiling: "Math_ceil_div a b = \<lceil>(of_int a :: rat) / of_int b\<rceil>"
  by (simp add: Math_ceil_div_def ceiling_divide_eq_div)

lemma badges_exclusive_monotone_clock:
  assumes "t1 \<le> t2"
  shows "\<not> (expired_badge (expiration_cell_of parse t1 t2 t3 e)
            \<and> soon_badge (expiration_cell_of parse t1 t2 t3 e))"
  using assms
  by (auto simp add: expiration_cell_of_def isExpired_def split: option.splits)

text \<open>
  C8.  With the clock read as \<open>now\<close> throughout the rendering of a row, the badges
  \<open>Expired\<close> and \<open>Soon\<close> are never shown together: \<open>Expired\<close> is shown exactly when the
  expiration time is strictly before \<open>now\<close>, \<open>Soon\<close> exactly when the row is not expired
  and the number of days \<open>ceil ((expiration - now) / 86400000)\<close> lies between 0 and 7; a
  row without an expiration date shows neither.
\<close>

theorem expiry_badges:
  "\<not> (expired_badge (expiration_cell_of parse now now now e)
       \<and> soon_badge (expiration_cell_of parse now now now e))
   \<and> expired_badge (expiration_cell_of parse now now now e)
       = (case expiry_time parse e of None \<Rightarrow> False | Some t \<Rightarrow> t < now)
   \<and> soon_badge (expiration_cell_of parse now now now e)
       = (\<not> expired_badge (expiration_cell_of parse now now now e)
          \<and> (case expiry_time parse e of
                None \<Rightarrow> False
              | Some t \<Rightarrow> 0 \<le> \<lceil>(of_int (t - now) :: rat) / 86400000\<rceil>
                          \<and> \<lceil>(of_int (t - now) :: rat) / 86400000\<rceil> \<le> 7))
   \<and> \<not> expired_badge (expiration_cell_of parse t1 t2 t3 None)
   \<and> \<not> soon_badge (expiration_cell_of parse t1 t2 t3 None)"
proof -
  have c: "Math_ceil_div (t - now) 86400000 = \<lceil>(of_int (t - now) :: rat) / 86400000\<rceil>" for t
    using Math_ceil_div_ceiling [of "t - now" 86400000] by simp
  show ?thesis
    by (auto simp add: expiration_cell_of_def isExpired_def isExpiringSoon_def expiry_time_def
        c Let_def split: option.splits)
qed

theorem expiry_badges_witness:
  "expired_badge (expiration_cell_of sample_parse 1704412800000 1704412800000 1704412800000 (Some ''2024-01-01''))
   \<and> \<not> soon_badge (expiration_cell_of sample_parse 1704412800000 1704412800000 1704412800000 (Some ''2024-01-01''))
   \<and> \<not> expired_badge (expiration_cell_of sample_parse 1704412800000 1704412800000 1704412800000 (Some ''2024-01-10''))
   \<and> soon_badge (expiration_cell_of sample_parse 1704412800000 1704412800000 1704412800000 (Some ''2024-01-10''))"
  using expiry_badges [of sample_parse 1704412800000 "Some ''2024-01-01''"]
    expiry_badges [of sample_parse 1704412800000 "Some ''2024-01-10''"]
  by (simp add: expiry_time_def sample_parse_def ceiling_le_iff le_ceiling_iff)

section \<open>Properties of the mutations\<close>

text \<open>
  C7, as stated, asks every mutation to close the dialog on success.  The delete mutation
  of the recipe ingredients table does not: its component has no dialog.
\<close>

theorem delete_success_closes_dialog_counterexample:
  "setIsOpen False \<notin> set (mutate (deleteMutation ''r1'') Resolved)"
  by (simp add: mutate_def deleteMutation_def)

lemma all_mutations_cases:
  assumes "m \<in> set (all_mutations rid recipeId)"
  shows "m = AddIngredient_mutation \<or> m = EditIngredient_mutation \<or> m = AddRecipe_mutation
       \<or> m = EditRecipe_mutation rid \<or> m = AddUserIngredient_mutation
       \<or> m = AddRecipeIngredient_mutation recipeId \<or> m = deleteMutation recipeId"
  using assms by (auto simp add: all_mutations_def dialog_mutations_def)

lemma dialog_mutations_cases:
  assumes "m \<in> set (dialog_mutations rid recipeId)"
  shows "m = AddIngredient_mutation \<or> m = EditIngredient_mutation \<or> m = AddRecipe_mutation
       \<or> m = EditRecipe_mutation rid \<or> m = AddUserIngredient_mutation
       \<or> m = AddRecipeIngredient_mutation recipeId"
  using assms by (auto simp add: dialog_mutations_def)

lemmas mutation_defs =
  AddIngredient_mutation_def EditIngredient_mutation_def AddRecipe_mutation_def
  EditRecipe_mutation_def AddUserIngredient_mutation_def AddRecipeIngredient_mutation_def
  deleteMutation_def

lemma mutation_settled:
  assumes "m \<in> set (all_mutations rid recipeId)"
  shows "invalidated (onSettled m) \<noteq> []
       \<and> invalidated (onSuccess m) = []
       \<and> invalidated (onError m err) = []
       \<and> onSettled m = map invalidateQueries (invalidated (onSettled m))
       \<and> (\<exists>msg. showSuccessToast msg \<in> set (onSuccess m))
       \<and> onError m err = [handleError err]"
  using all_mutations_cases [OF assms]
  by (elim disjE) (simp_all add: mutation_defs)

lemma dialog_mutation_closes:
  assumes "m \<in> set (dialog_mutations rid recipeId)"
  shows "setIsOpen False \<in> set (onSuccess m)"
  using dialog_mutations_cases [OF assms]
  by (elim disjE) (simp_all add: mutation_defs)

text \<open>
  C7, amended.  Every mutation invalidates its query keys in \<open>onSettled\<close> and nowhere else,
  so after the request has completed, resolved or rejected; on success it shows a success
  toast, and each of the six dialog mutations also closes its dialog, while the delete
  mutation only shows the toast; on error it calls \<open>handleError\<close> and nothing but the
  invalidation follows, so no dialog is closed.
\<close>

theorem mutations_invalidate_when_settled:
  "(\<forall>m \<in> set (all_mutations rid recipeId).
      (\<forall>result. \<exists>before. mutate m result = before @ onSettled m \<and> invalidated before = [])
      \<and> invalidated (onSettled m) \<noteq> []
      \<and> onSettled m = map invalidateQueries (invalidated (onSettled m))
      \<and> (\<exists>msg. showSuccessToast msg \<in> set (mutate m Resolved))
      \<and> (\<forall>err. mutate m (Rejected err) = handleError err # onSettled m))
   \<and> (\<forall>m \<in> set (dialog_mutations rid recipeId). setIsOpen False \<in> set (mutate m Resolved))
   \<and> mutate (deleteMutation recipeId) Resolved
       = [showSuccessToast ''Ingredient removed from recipe successfully.'',
          invalidateQueries [''recipe-ingredients'', recipeId]]
   \<and> invalidated (onSettled AddIngredient_mutation) = [[''ingredients'']]
   \<and> invalidated (onSettled EditIngredient_mutation) = [[''ingredients'']]
   \<and> invalidated (onSettled AddRecipe_mutation) = [[''recipes'']]
   \<and> invalidated (onSettled (EditRecipe_mutation rid)) = [[''recipes''], [''recipe'', rid]]
   \<and> invalidated (onSettled AddUserIngredient_mutation) = [[''user-ingredients'']]
   \<and> invalidated (onSettled (AddRecipeIngredient_mutation recipeId))
       = [[''recipe-ingredients'', recipeId]]
   \<and> invalidated (onSettled (deleteMutation recipeId)) = [[''recipe-ingredients'', recipeId]]"
proof -
  have a: "\<forall>m \<in> set (all_mutations rid recipeId).
      (\<forall>result. \<exists>before. mutate m result = before @ onSettled m \<and> invalidated before = [])
      \<and> invalidated (onSettled m) \<noteq> []
      \<and> onSettled m = map invalidateQueries (invalidated (onSettled m))
      \<and> (\<exists>msg. showSuccessToast msg \<in> set (mutate m Resolved))
      \<and> (\<forall>err. mutate m (Rejected err) = handleError err # onSettled m)"
  proof
    fix m
    assume m: "m \<in> set (all_mutations rid recipeId)"
    have r: "\<exists>before. mutate m result = before @ onSettled m \<and> invalidated before = []" for result
    proof (cases result)
      case Resolved
      then show ?thesis using mutation_settled [OF m] by (simp add: mutate_def)
    next
      case (Rejected err)
      then show ?thesis using mutation_settled [OF m, of err] by (simp add: mutate_def)
    qed
    have t: "\<exists>msg. showSuccessToast msg \<in> set (mutate m Resolved)"
      using mutation_settled [OF m] by (auto simp add: mutate_def)
    have e: "mutate m (Rejected err) = handleError err # onSettled m" for err
      using mutation_settled [OF m, of err] by (simp add: mutate_def)
    from r t e mutation_settled [OF m]
    show "(\<forall>result. \<exists>before. mutate m result = before @ onSettled m \<and> invalidated before = [])
      \<and> invalidated (onSettled m) \<noteq> []
      \<and> onSettled m = map invalidateQueries (invalidated (onSettled m))
      \<and> (\<exists>msg. showSuccessToast msg \<in> set (mutate m Resolved))
      \<and> (\<forall>err. mutate m (Rejected err) = handleError err # onSettled m)"
      by blast
  qed
  have b: "\<forall>m \<in> set (dialog_mutations rid recipeId). setIsOpen False \<in> set (mutate m Resolved)"
    using dialog_mutation_closes by (simp add: mutate_def)
  have c: "mutate (deleteMutation recipeId) Resolved
       = [showSuccessToast ''Ingredient removed from recipe successfully.'',
          invalidateQueries [''recipe-ingredients'', recipeId]]"
    by (simp add: mutate_def deleteMutation_def)
  have d: "invalidated (onSettled AddIngredient_mutation) = [[''ingredients'']]"
    "invalidated (onSettled EditIngredient_mutation) = [[''ingredients'']]"
    "invalidated (onSettled AddRecipe_mutation) = [[''recipes'']]"
    "invalidated (onSettled (EditRecipe_mutation rid)) = [[''recipes''], [''recipe'', rid]]"
    "invalidated (onSettled AddUserIngredient_mutation) = [[''user-ingredients'']]"
    "invalidated (onSettled (AddRecipeIngredient_mutation recipeId))
       = [[''recipe-ingredients'', recipeId]]"
    "invalidated (onSettled (deleteMutation recipeId)) = [[''recipe-ingredients'', recipeId]]"
    by (simp_all add: mutation_defs)
  from a b c d show ?thesis by blast
qed

theorem mutations_invalidate_when_settled_witness:
  "EditRecipe_mutation ''r7'' \<in> set (all_mutations ''r7'' ''r9'')
   \<and> EditRecipe_mutation ''r7'' \<in> set (dialog_mutations ''r7'' ''r9'')
   \<and> mutate (EditRecipe_mutation ''r7'') (Rejected ''500'')
       = [handleError ''500'', invalidateQueries [''recipes''], invalidateQueries [''recipe'', ''r7'']]
   \<and> setIsOpen False \<in> set (mutate (EditRecipe_mutation ''r7'') Resolved)
   \<and> setIsOpen False \<notin> set (mutate (EditRecipe_mutation ''r7'') (Rejected ''500''))"
proof -
  have m: "EditRecipe_mutation ''r7'' \<in> set (all_mutations ''r7'' ''r9'')"
    "EditRecipe_mutation ''r7'' \<in> set (dialog_mutations ''r7'' ''r9'')"
    by (simp_all add: all_mutations_def dialog_mutations_def)
  have s: "onSettled (EditRecipe_mutation ''r7'')
    = [invalidateQueries [''recipes''], invalidateQueries [''recipe'', ''r7'']]"
    by (simp add: EditRecipe_mutation_def)
  from mutations_invalidate_when_settled [of "''r7''" "''r9''"] m
  have "mutate (EditRecipe_mutation ''r7'') (Rejected ''500'')
          = handleError ''500'' # onSettled (EditRecipe_mutation ''r7'')"
    and "setIsOpen False \<in> set (mutate (EditRecipe_mutation ''r7'') Resolved)"
    by blast+
  with m s show ?thesis by simp
qed

end
